theory Spec2Isabelle
  imports Main "HOL-Library.Sublist"
begin

section \<open>autopep8_format_paths.py: the model\<close>

text \<open>
  The script \<^verbatim>\<open>utils_maintenance/autopep8_format_paths.py\<close> resolves a list of
  paths, asks git for the files below them, filters the answer and hands the rest to
  autopep8, after checking autopep8's version.

  Python \<^verbatim>\<open>str\<close> and \<^verbatim>\<open>bytes\<close> values are both modelled as \<open>string\<close>, one
  \<open>char\<close> per byte or code point. All text the script inspects character by character
  (the version output, the file names of git) is decoded first, and the model follows
  the decoders on ASCII, where a byte and a code point coincide.
\<close>

subsection \<open>Exceptions and results\<close>

datatype py_error =
    FileNotFoundError
  | CalledProcessError
  | OSError
  | UnicodeDecodeError
  | AttributeError
  | ValueError
  | IndexError

text \<open>How the process ends: \<^verbatim>\<open>main\<close> returns, \<^verbatim>\<open>sys.exit(n)\<close> is called, or an
  exception reaches the top level.\<close>

datatype outcome = Returned | SysExit int | Uncaught py_error

text \<open>The exit status the interpreter gives the operating system: 0 after a normal
  return, the argument of \<^verbatim>\<open>sys.exit\<close>, and 1 after an uncaught exception.\<close>

fun exit_code :: "outcome \<Rightarrow> int" where
  "exit_code Returned = 0"
| "exit_code (SysExit n) = n"
| "exit_code (Uncaught e) = 1"

text \<open>A list comprehension whose element expression may raise: the first exception,
  from left to right, ends it.\<close>

fun map_raise :: "('a \<Rightarrow> py_error + 'b) \<Rightarrow> 'a list \<Rightarrow> py_error + 'b list" where
  "map_raise f [] = Inr []"
| "map_raise f (x # xs) =
     (case f x of
        Inl e \<Rightarrow> Inl e
      | Inr y \<Rightarrow> (case map_raise f xs of Inl e \<Rightarrow> Inl e | Inr ys \<Rightarrow> Inr (y # ys)))"

subsection \<open>String methods\<close>

text \<open>\<^verbatim>\<open>s.endswith(suffix)\<close>, and the same with a tuple of suffixes.\<close>

definition endswith :: "string \<Rightarrow> string \<Rightarrow> bool" where
  "endswith s suf = (length suf \<le> length s \<and> drop (length s - length suf) s = suf)"

fun endswith_tuple :: "string \<Rightarrow> string list \<Rightarrow> bool" where
  "endswith_tuple s [] = False"
| "endswith_tuple s (suf # sufs) = (endswith s suf \<or> endswith_tuple s sufs)"

text \<open>\<^verbatim>\<open>c.isdigit()\<close> and \<^verbatim>\<open>c.isspace()\<close> of a one-character \<^verbatim>\<open>str\<close>, on ASCII:
  the digits 0 to 9; tab, line feed, vertical tab, form feed, carriage return, the four
  separators 0x1C to 0x1F and the space.\<close>

definition isdigit :: "char \<Rightarrow> bool" where
  "isdigit c = (48 \<le> (of_char c :: nat) \<and> (of_char c :: nat) \<le> 57)"

definition isspace :: "char \<Rightarrow> bool" where
  "isspace c =
     ((9 \<le> (of_char c :: nat) \<and> (of_char c :: nat) \<le> 13)
      \<or> (28 \<le> (of_char c :: nat) \<and> (of_char c :: nat) \<le> 32))"

text \<open>\<^verbatim>\<open>s.split()\<close>: the maximal runs of non-whitespace characters. \<open>cur\<close> is the
  token being read.\<close>

fun split_ws :: "string \<Rightarrow> string \<Rightarrow> string list" where
  "split_ws cur [] = (if cur = [] then [] else [cur])"
| "split_ws cur (c # cs) =
     (if isspace c then (if cur = [] then split_ws [] cs else cur # split_ws [] cs)
      else split_ws (cur @ [c]) cs)"

definition str_split :: "string \<Rightarrow> string list" where
  "str_split s = split_ws [] s"

text \<open>\<^verbatim>\<open>s.split(sep)\<close> for a separator of one character (\<^verbatim>\<open>"-"\<close>, \<^verbatim>\<open>"."\<close>, and
  \<^verbatim>\<open>b'\0'\<close> on bytes): every separator ends a field, empty fields are kept, and the
  result has at least one field.\<close>

fun split_sep :: "char \<Rightarrow> string \<Rightarrow> string \<Rightarrow> string list" where
  "split_sep sep cur [] = [cur]"
| "split_sep sep cur (c # cs) =
     (if c = sep then cur # split_sep sep [] cs else split_sep sep (cur @ [c]) cs)"

definition str_split_on :: "char \<Rightarrow> string \<Rightarrow> string list" where
  "str_split_on sep s = split_sep sep [] s"

text \<open>\<^verbatim>\<open>s.replace(old, new)\<close> for \<open>old\<close> and \<open>new\<close> of one character each.\<close>

definition str_replace :: "char \<Rightarrow> char \<Rightarrow> string \<Rightarrow> string" where
  "str_replace old new s = map (\<lambda>c. if c = old then new else c) s"

text \<open>\<^verbatim>\<open>s.strip()\<close>.\<close>

definition str_strip :: "string \<Rightarrow> string" where
  "str_strip s = rev (dropWhile isspace (rev (dropWhile isspace s)))"

text \<open>\<^verbatim>\<open>int(s)\<close> in base 10: surrounding whitespace is stripped, one sign is allowed,
  then decimal digits, where single underscores may stand between two digits. Anything
  else raises \<^verbatim>\<open>ValueError\<close>. \<open>int_digits\<close> reads on after a digit. (CPython's
  configurable limit on the number of digits, 4300 by default since 3.11, is not
  modelled.)\<close>

definition digit_val :: "char \<Rightarrow> int" where
  "digit_val c = int (of_char c) - 48"

fun int_digits :: "int \<Rightarrow> string \<Rightarrow> int option" where
  "int_digits acc [] = Some acc"
| "int_digits acc [c] = (if isdigit c then Some (acc * 10 + digit_val c) else None)"
| "int_digits acc (c # d # ds) =
     (if isdigit c then int_digits (acc * 10 + digit_val c) (d # ds)
      else if c = CHR ''_'' \<and> isdigit d then int_digits (acc * 10 + digit_val d) ds
      else None)"

definition int_unsigned :: "string \<Rightarrow> int option" where
  "int_unsigned s =
     (case s of
        [] \<Rightarrow> None
      | c # cs \<Rightarrow> if isdigit c then int_digits (digit_val c) cs else None)"

definition py_int :: "string \<Rightarrow> py_error + int" where
  "py_int s =
     (let t = str_strip s;
          r = (case t of
                 [] \<Rightarrow> None
               | c # cs \<Rightarrow>
                   if c = CHR ''+'' then int_unsigned cs
                   else if c = CHR ''-'' then map_option uminus (int_unsigned cs)
                   else int_unsigned t)
      in case r of None \<Rightarrow> Inl ValueError | Some n \<Rightarrow> Inr n)"

text \<open>\<^verbatim>\<open>b.decode('ascii')\<close>: a byte above 127 raises. \<^verbatim>\<open>b.decode('utf-8')\<close> is
  modelled on ASCII input, where it is the identity; a byte above 127 is given as the
  decoding error, which is what Python does with an ill-formed sequence (a well-formed
  multi-byte sequence, which Python decodes to a code point above 127, is outside the
  model).\<close>

definition decode_ascii :: "string \<Rightarrow> py_error + string" where
  "decode_ascii b = (if list_all (\<lambda>c. (of_char c :: nat) < 128) b then Inr b else Inl UnicodeDecodeError)"

definition decode_utf8 :: "string \<Rightarrow> py_error + string" where
  "decode_utf8 b = (if list_all (\<lambda>c. (of_char c :: nat) < 128) b then Inr b else Inl UnicodeDecodeError)"

text \<open>Comparison of tuples of integers: lexicographic, a proper prefix is smaller.\<close>

fun tuple_lt :: "int list \<Rightarrow> int list \<Rightarrow> bool" where
  "tuple_lt [] [] = False"
| "tuple_lt [] (y # ys) = True"
| "tuple_lt (x # xs) [] = False"
| "tuple_lt (x # xs) (y # ys) = (if x = y then tuple_lt xs ys else x < y)"

subsection \<open>The world outside the script\<close>

text \<open>
  What the script asks of its host: the path separator \<^verbatim>\<open>os.sep\<close> (one character),
  \<^verbatim>\<open>sys.executable\<close>, \<^verbatim>\<open>os.path.isfile\<close>, \<^verbatim>\<open>os.path.exists\<close>, and
  \<^verbatim>\<open>subprocess.check_output\<close>, which for a command line gives the bytes of standard
  output or raises (\<^verbatim>\<open>FileNotFoundError\<close> when the executable is missing,
  \<^verbatim>\<open>CalledProcessError\<close> on a non-zero exit status, \<dots>). Its first argument says
  whether \<^verbatim>\<open>stderr=subprocess.STDOUT\<close> was passed.
\<close>

record env =
  os_sep :: char
  sys_executable :: string
  isfile :: "string \<Rightarrow> bool"
  path_exists :: "string \<Rightarrow> bool"
  check_output :: "bool \<Rightarrow> string list \<Rightarrow> py_error + string"

text \<open>The namespace \<^verbatim>\<open>argparse_create().parse_args()\<close> returns: \<^verbatim>\<open>changed_only\<close>
  (default \<^verbatim>\<open>False\<close>), \<^verbatim>\<open>autopep8_command\<close> (default \<^verbatim>\<open>"autopep8"\<close>) and the
  trailing \<^verbatim>\<open>paths\<close>.\<close>

record args =
  args_changed_only :: bool
  args_autopep8_command :: string
  args_paths :: "string list"

text \<open>What the script prints, one constructor per \<^verbatim>\<open>print\<close> call of the source, with
  the values it formats.\<close>

datatype message =
    Using string int int int
  | Unable_to_detect
  | Too_old "int list" "int list"
  | Too_recent "int list" "int list"
  | Install_hint int int
  | Operating_on "nat option"
  | Path_line string

text \<open>
  The state the script changes: the module-level \<^verbatim>\<open>AUTOPEP8_FORMAT_CMD\<close>, the lines
  printed so far, the command lines given to \<^verbatim>\<open>subprocess.check_output\<close> so far, and
  the \<^verbatim>\<open>files\<close> arguments \<^verbatim>\<open>autopep8_format\<close> has been called with so far.
\<close>

record state =
  AUTOPEP8_FORMAT_CMD :: string
  stdout :: "message list"
  subprocess_calls :: "string list list"
  formatter_calls :: "string list list"

definition print :: "message \<Rightarrow> state \<Rightarrow> state" where
  "print m s = s\<lparr>stdout := stdout s @ [m]\<rparr>"

definition spawn :: "string list \<Rightarrow> state \<Rightarrow> state" where
  "spawn cmd s = s\<lparr>subprocess_calls := subprocess_calls s @ [cmd]\<rparr>"

text \<open>The state when \<^verbatim>\<open>main\<close> starts.\<close>

definition initial_state :: state where
  "initial_state =
     \<lparr>AUTOPEP8_FORMAT_CMD = ''autopep8'', stdout = [], subprocess_calls = [],
      formatter_calls = []\<rparr>"

subsection \<open>Module constants\<close>

definition VERSION_MIN :: "int list" where
  "VERSION_MIN = [1, 6, 0]"

definition VERSION_MAX_RECOMMENDED :: "int list" where
  "VERSION_MAX_RECOMMENDED = [1, 6, 0]"

definition extensions :: "string list" where
  "extensions = [''.py'']"

definition ignore_files :: "string set" where
  "ignore_files = {''release/scripts/modules/rna_manual_reference.py''}"

subsection \<open>compute_paths\<close>

definition default_paths :: "string list" where
  "default_paths = [''build_files'', ''release'', ''doc'', ''source'', ''tests'']"

text \<open>The comprehension of the \<^verbatim>\<open>else\<close> branch: the value of \<^verbatim>\<open>paths\<close> before the
  separators are looked at.\<close>

definition user_paths :: "env \<Rightarrow> string list \<Rightarrow> string list" where
  "user_paths e paths = [f \<leftarrow> paths. \<not> isfile e f \<or> endswith_tuple f extensions]"

text \<open>The last statement before the \<^verbatim>\<open>return\<close>: on a host whose separator is not
  \<^verbatim>\<open>"/"\<close>, every \<^verbatim>\<open>"/"\<close> of every path becomes the separator.\<close>

definition host_separators :: "env \<Rightarrow> string list \<Rightarrow> string list" where
  "host_separators e paths =
     (if os_sep e \<noteq> CHR ''/'' then [str_replace (CHR ''/'') (os_sep e) f. f \<leftarrow> paths]
      else paths)"

definition compute_paths :: "env \<Rightarrow> string list \<Rightarrow> bool \<Rightarrow> string list" where
  "compute_paths e paths use_default_paths =
     host_separators e (if use_default_paths then default_paths else user_paths e paths)"

subsection \<open>source_files_from_git\<close>

definition git_cmd :: "string list \<Rightarrow> bool \<Rightarrow> string list" where
  "git_cmd paths changed_only =
     (if changed_only
      then [''git'', ''diff'', ''HEAD'', ''--name-only'', ''-z'', ''--''] @ paths
      else [''git'', ''ls-tree'', ''-r'', ''HEAD''] @ paths @ [''--name-only'', ''-z''])"

definition source_files_from_git ::
  "env \<Rightarrow> string list \<Rightarrow> bool \<Rightarrow> state \<Rightarrow> (py_error + string list) \<times> state" where
  "source_files_from_git e paths changed_only s =
     (let cmd = git_cmd paths changed_only;
          s1 = spawn cmd s
      in case check_output e False cmd of
           Inl err \<Rightarrow> (Inl err, s1)
         | Inr out \<Rightarrow> (map_raise decode_ascii (str_split_on (CHR 0x00) out), s1))"

subsection \<open>autopep8_ensure_version\<close>

text \<open>
  The loop \<^verbatim>\<open>for is_default in (True, False)\<close>, as a recursion over the values still
  to come. Its result is the value of \<^verbatim>\<open>version_output\<close> after the loop: \<open>None\<close>
  when every round ended in \<^verbatim>\<open>continue\<close>. An exception other than
  \<^verbatim>\<open>FileNotFoundError\<close> leaves the function.
\<close>

fun version_loop ::
  "env \<Rightarrow> string \<Rightarrow> bool list \<Rightarrow> state \<Rightarrow> (py_error + string option) \<times> state" where
  "version_loop e autopep8_format_cmd_argument [] s = (Inr None, s)"
| "version_loop e autopep8_format_cmd_argument (is_default # rest) s =
     (if is_default \<and>
         \<not> (autopep8_format_cmd_argument \<noteq> [] \<and> path_exists e autopep8_format_cmd_argument)
      then version_loop e autopep8_format_cmd_argument rest s
      else
        (let autopep8_format_cmd =
               (if is_default then autopep8_format_cmd_argument else ''autopep8'');
             cmd = (if endswith autopep8_format_cmd ''.py''
                    then [sys_executable e, autopep8_format_cmd]
                    else [autopep8_format_cmd]);
             s1 = spawn (cmd @ [''--version'']) s
         in case check_output e False (cmd @ [''--version'']) of
              Inl err \<Rightarrow>
                if err = FileNotFoundError
                then version_loop e autopep8_format_cmd_argument rest s1
                else (Inl err, s1)
            | Inr out \<Rightarrow>
                (case decode_utf8 out of
                   Inl err \<Rightarrow> (Inl err, s1)
                 | Inr version_output \<Rightarrow>
                     (Inr (Some version_output),
                      s1\<lparr>AUTOPEP8_FORMAT_CMD := autopep8_format_cmd\<rparr>))))"

text \<open>\<^verbatim>\<open>next(iter(v for v in tokens if v[0].isdigit()), None)\<close>: the first token whose
  first character is a digit; \<^verbatim>\<open>v[0]\<close> of an empty token would raise.\<close>

fun first_digit_token :: "string list \<Rightarrow> py_error + string option" where
  "first_digit_token [] = Inr None"
| "first_digit_token (v # vs) =
     (case v of
        [] \<Rightarrow> Inl IndexError
      | c # _ \<Rightarrow> if isdigit c then Inr (Some v) else first_digit_token vs)"

text \<open>From the version output to the version tuple: the statements between the loop and
  the \<^verbatim>\<open>print\<close>.\<close>

definition parse_version :: "string \<Rightarrow> py_error + int list option" where
  "parse_version version_output =
     (case first_digit_token (str_split version_output) of
        Inl err \<Rightarrow> Inl err
      | Inr None \<Rightarrow> Inr None
      | Inr (Some version) \<Rightarrow>
          (case str_split_on (CHR ''-'') version of
             [] \<Rightarrow> Inl IndexError
           | v # _ \<Rightarrow>
               (case map_raise py_int (str_split_on (CHR ''.'') v) of
                  Inl err \<Rightarrow> Inl err
                | Inr ns \<Rightarrow> Inr (Some ns))))"

text \<open>
  The same step in the words of the specification, to compare \<open>parse_version\<close> with:
  of the whitespace-separated tokens, the first that starts with a digit is taken;
  what follows its first hyphen is discarded; the rest is cut at the dots and every
  component is read as an integer.
\<close>

definition starts_with_digit :: "string \<Rightarrow> bool" where
  "starts_with_digit v = (case v of [] \<Rightarrow> False | c # cs \<Rightarrow> isdigit c)"

definition parse_version_spec :: "string \<Rightarrow> py_error + int list option" where
  "parse_version_spec version_output =
     (case find starts_with_digit (str_split version_output) of
        None \<Rightarrow> Inr None
      | Some tok \<Rightarrow>
          (case map_raise py_int
                  (str_split_on (CHR ''.'') (takeWhile (\<lambda>c. c \<noteq> CHR ''-'') tok)) of
             Inl err \<Rightarrow> Inl err
           | Inr ns \<Rightarrow> Inr (Some ns)))"

text \<open>With \<^verbatim>\<open>version_output\<close> still \<^verbatim>\<open>None\<close>, \<^verbatim>\<open>version_output.split()\<close> raises
  \<^verbatim>\<open>AttributeError\<close>. The \<^verbatim>\<open>print\<close> reads \<^verbatim>\<open>version[0]\<close>, \<^verbatim>\<open>version[1]\<close> and
  \<^verbatim>\<open>version[2]\<close>, so a tuple of fewer than three numbers raises \<^verbatim>\<open>IndexError\<close>.\<close>

definition autopep8_ensure_version ::
  "env \<Rightarrow> string \<Rightarrow> state \<Rightarrow> (py_error + int list option) \<times> state" where
  "autopep8_ensure_version e autopep8_format_cmd_argument s =
     (case version_loop e autopep8_format_cmd_argument [True, False] s of
        (Inl err, s1) \<Rightarrow> (Inl err, s1)
      | (Inr None, s1) \<Rightarrow> (Inl AttributeError, s1)
      | (Inr (Some version_output), s1) \<Rightarrow>
          (case parse_version version_output of
             Inl err \<Rightarrow> (Inl err, s1)
           | Inr None \<Rightarrow> (Inr None, s1)
           | Inr (Some version) \<Rightarrow>
               (case version of
                  a # b # c # _ \<Rightarrow>
                    (Inr (Some version), print (Using (AUTOPEP8_FORMAT_CMD s1) a b c) s1)
                | _ \<Rightarrow> (Inl IndexError, s1))))"

subsection \<open>autopep8_format\<close>

definition autopep8_format ::
  "env \<Rightarrow> string list \<Rightarrow> state \<Rightarrow> (py_error + string) \<times> state" where
  "autopep8_format e files s =
     (let cmd0 = [AUTOPEP8_FORMAT_CMD s, ''--recursive'', ''--in-place'', ''--jobs=0''] @ files;
          cmd = (if endswith (AUTOPEP8_FORMAT_CMD s) ''.py'' then sys_executable e # cmd0
                 else cmd0);
          s1 = spawn cmd (s\<lparr>formatter_calls := formatter_calls s @ [files]\<rparr>)
      in (check_output e True cmd, s1))"

subsection \<open>main\<close>

text \<open>The files of git's answer that go on: those with a supported suffix that are not
  in \<^verbatim>\<open>ignore_files\<close>.\<close>

definition filter_files :: "string list \<Rightarrow> string list" where
  "filter_files fs = [f \<leftarrow> fs. endswith_tuple f extensions \<and> f \<notin> ignore_files]"

text \<open>\<^verbatim>\<open>main\<close>, from the parsed arguments on.\<close>

definition main :: "env \<Rightarrow> args \<Rightarrow> state \<Rightarrow> outcome \<times> state" where
  "main e a s =
     (case autopep8_ensure_version e (args_autopep8_command a) s of
        (Inl err, s1) \<Rightarrow> (Uncaught err, s1)
      | (Inr None, s1) \<Rightarrow> (SysExit 1, print Unable_to_detect s1)
      | (Inr (Some version), s1) \<Rightarrow>
          if tuple_lt version VERSION_MIN
          then (SysExit 1, print (Too_old version VERSION_MIN) s1)
          else
            (let s2 = (if tuple_lt VERSION_MAX_RECOMMENDED version
                       then print (Install_hint (VERSION_MAX_RECOMMENDED ! 0)
                                                (VERSION_MAX_RECOMMENDED ! 1))
                              (print (Too_recent version VERSION_MAX_RECOMMENDED) s1)
                       else s1);
                 use_default_paths = (\<not> (args_paths a \<noteq> [] \<or> args_changed_only a));
                 paths = compute_paths e (args_paths a) use_default_paths;
                 s3 = print (Operating_on (if args_changed_only a then Some (length paths)
                                           else None)) s2;
                 s4 = foldl (\<lambda>st p. print (Path_line p) st) s3 paths
             in case source_files_from_git e paths (args_changed_only a) s4 of
                  (Inl err, s5) \<Rightarrow> (Uncaught err, s5)
                | (Inr fs, s5) \<Rightarrow>
                    (let files = filter_files fs
                     in if files = [] then (Returned, s5)
                        else (case autopep8_format e files s5 of
                                (Inl err, s6) \<Rightarrow> (Uncaught err, s6)
                              | (Inr out, s6) \<Rightarrow> (Returned, s6)))))"

text \<open>One run of the program.\<close>

definition run :: "env \<Rightarrow> args \<Rightarrow> outcome \<times> state" where
  "run e a = main e a initial_state"

subsection \<open>Points of a run\<close>

text \<open>Two values of \<^verbatim>\<open>main\<close> that statements about a run refer to: the paths it
  resolves, and the state in which it calls \<^verbatim>\<open>source_files_from_git\<close>, for the
  version and the state \<^verbatim>\<open>autopep8_ensure_version\<close> returned (the warning about a too
  recent version, the heading and the paths have been printed).\<close>

definition resolved_paths :: "env \<Rightarrow> args \<Rightarrow> string list" where
  "resolved_paths e a =
     compute_paths e (args_paths a) (\<not> (args_paths a \<noteq> [] \<or> args_changed_only a))"

definition before_git :: "env \<Rightarrow> args \<Rightarrow> int list \<Rightarrow> state \<Rightarrow> state" where
  "before_git e a version s1 =
     (let s2 = (if tuple_lt VERSION_MAX_RECOMMENDED version
                then print (Install_hint (VERSION_MAX_RECOMMENDED ! 0)
                                         (VERSION_MAX_RECOMMENDED ! 1))
                       (print (Too_recent version VERSION_MAX_RECOMMENDED) s1)
                else s1);
          paths = resolved_paths e a;
          s3 = print (Operating_on (if args_changed_only a then Some (length paths)
                                    else None)) s2
      in foldl (\<lambda>st p. print (Path_line p) st) s3 paths)"

subsection \<open>Example hosts\<close>

text \<open>Hosts and argument lists to run the model on. \<open>demo_check_output\<close> answers
  \<^verbatim>\<open>autopep8 --version\<close> and every git command with the given bytes, lets every other
  autopep8 command succeed with no output, and knows no other executable.\<close>

definition demo_check_output ::
  "string \<Rightarrow> string \<Rightarrow> bool \<Rightarrow> string list \<Rightarrow> py_error + string" where
  "demo_check_output version_text git_text merged cmd =
     (case cmd of
        [] \<Rightarrow> Inl FileNotFoundError
      | c # rest \<Rightarrow>
          if c = ''git'' then Inr git_text
          else if c = ''autopep8''
          then (if rest = [''--version''] then Inr version_text else Inr [])
          else Inl FileNotFoundError)"

definition demo_isfile :: "string \<Rightarrow> bool" where
  "demo_isfile f = (f = ''setup.py'' \<or> f = ''notes.txt'')"

definition posix_host :: "string \<Rightarrow> string \<Rightarrow> env" where
  "posix_host version_text git_text =
     \<lparr>os_sep = CHR ''/'', sys_executable = ''python3'', isfile = demo_isfile,
      path_exists = demo_isfile, check_output = demo_check_output version_text git_text\<rparr>"

definition windows_host :: env where
  "windows_host =
     \<lparr>os_sep = CHR 0x5C, sys_executable = ''python.exe'', isfile = demo_isfile,
      path_exists = demo_isfile,
      check_output = demo_check_output ''autopep8 1.6.0'' []\<rparr>"

text \<open>A host without autopep8: every command but git is missing.\<close>

definition no_autopep8_check_output :: "bool \<Rightarrow> string list \<Rightarrow> py_error + string" where
  "no_autopep8_check_output merged cmd =
     (case cmd of
        [] \<Rightarrow> Inl FileNotFoundError
      | c # rest \<Rightarrow> if c = ''git'' then Inr [] else Inl FileNotFoundError)"

definition no_autopep8_host :: env where
  "no_autopep8_host =
     \<lparr>os_sep = CHR ''/'', sys_executable = ''python3'', isfile = demo_isfile,
      path_exists = demo_isfile, check_output = no_autopep8_check_output\<rparr>"

text \<open>The script called with no argument at all, and with three paths.\<close>

definition default_args :: args where
  "default_args =
     \<lparr>args_changed_only = False, args_autopep8_command = ''autopep8'', args_paths = []\<rparr>"

definition path_args :: args where
  "path_args =
     \<lparr>args_changed_only = False, args_autopep8_command = ''autopep8'',
      args_paths = [''source/tools'', ''setup.py'', ''notes.txt'']\<rparr>"

text \<open>Git's answer to a listing: three names, each ended by a NUL byte.\<close>

definition demo_git_output :: string where
  "demo_git_output =
     ''release/scripts/modules/rna_manual_reference.py'' @ [CHR 0x00]
     @ ''source/tools/a.py'' @ [CHR 0x00] @ ''source/tools/b.c'' @ [CHR 0x00]"

text \<open>Git's answer with nothing to format in it: the ignored file and a C file.\<close>

definition demo_git_output_no_python :: string where
  "demo_git_output_no_python =
     ''release/scripts/modules/rna_manual_reference.py'' @ [CHR 0x00]
     @ ''source/tools/b.c'' @ [CHR 0x00]"

section \<open>Unfolding and evaluation\<close>

lemmas string_defs = endswith_def str_split_def str_split_on_def isspace_def isdigit_def
  py_int_def str_strip_def int_unsigned_def digit_val_def decode_utf8_def decode_ascii_def
  str_replace_def extensions_def

lemmas program_defs = autopep8_ensure_version_def parse_version_def source_files_from_git_def
  git_cmd_def autopep8_format_def filter_files_def ignore_files_def resolved_paths_def
  compute_paths_def user_paths_def host_separators_def default_paths_def
  VERSION_MIN_def VERSION_MAX_RECOMMENDED_def initial_state_def print_def spawn_def Let_def

lemmas host_defs = posix_host_def windows_host_def no_autopep8_host_def demo_check_output_def
  no_autopep8_check_output_def demo_isfile_def default_args_def path_args_def
  demo_git_output_def demo_git_output_no_python_def

section \<open>Path resolution\<close>

lemma host_separators_Nil: "host_separators e [] = []"
  by (simp add: host_separators_def)

lemma host_separators_single:
  "host_separators e [f] =
     [if os_sep e = CHR ''/'' then f else str_replace (CHR ''/'') (os_sep e) f]"
  by (simp add: host_separators_def)

lemma host_separators_append:
  "host_separators e (ps @ qs) = host_separators e ps @ host_separators e qs"
  by (simp add: host_separators_def)

lemma host_separators_default_paths: "host_separators e default_paths = default_paths"
  by (simp add: host_separators_def default_paths_def str_replace_def)

text \<open>
  Claim C6. With \<^verbatim>\<open>use_default_paths\<close> true, \<^verbatim>\<open>compute_paths\<close> returns the five default
  directories, whatever paths it is given and whatever the host's separator is: none of
  the five names holds a \<^verbatim>\<open>"/"\<close>, so the separator step leaves them as they are.
\<close>

theorem compute_paths_default:
  "compute_paths e paths True = [''build_files'', ''release'', ''doc'', ''source'', ''tests'']"
  using host_separators_default_paths [of e]
  by (simp add: compute_paths_def default_paths_def)

theorem compute_paths_default_witness:
  "compute_paths windows_host [''source/tools'', ''setup.py''] True
     = [''build_files'', ''release'', ''doc'', ''source'', ''tests'']"
  by (rule compute_paths_default)

text \<open>
  Claim C10. With \<^verbatim>\<open>use_default_paths\<close> false, the result of \<^verbatim>\<open>compute_paths\<close> is the
  separator step applied to \<open>user_paths\<close>, and \<open>user_paths\<close>, the value before that
  step, is a subsequence of the paths given: elements are removed, never added, moved or
  rewritten. On a host whose separator is \<^verbatim>\<open>"/"\<close> the result itself is that
  subsequence.
\<close>

theorem compute_paths_subsequence:
  "compute_paths e paths False = host_separators e (user_paths e paths)
   \<and> subseq (user_paths e paths) paths
   \<and> (os_sep e = CHR ''/'' \<longrightarrow> subseq (compute_paths e paths False) paths)"
  by (simp add: compute_paths_def user_paths_def host_separators_def)

theorem compute_paths_subsequence_witness:
  "user_paths (posix_host [] []) (args_paths path_args) = [''source/tools'', ''setup.py'']
   \<and> compute_paths (posix_host [] []) (args_paths path_args) False
       = [''source/tools'', ''setup.py'']
   \<and> subseq [''source/tools'', ''setup.py''] (args_paths path_args)"
proof -
  have u: "user_paths (posix_host [] []) (args_paths path_args)
             = [''source/tools'', ''setup.py'']"
    by (simp add: user_paths_def posix_host_def path_args_def demo_isfile_def extensions_def
        endswith_def)
  have s: "os_sep (posix_host [] []) = CHR ''/''"
    by (simp add: posix_host_def)
  from compute_paths_subsequence [of "posix_host [] []" "args_paths path_args"] u s
  show ?thesis
    by (simp add: host_separators_def)
qed

text \<open>
  Claim C7, as stated: a path argument that is not an existing file is retained
  unchanged. On a host whose separator is not \<^verbatim>\<open>"/"\<close> this fails: the directory
  \<^verbatim>\<open>source/tools\<close> is retained, but with its \<^verbatim>\<open>"/"\<close> replaced by the backslash.
\<close>

theorem compute_paths_rewrites_separator:
  "\<not> isfile windows_host ''source/tools''
   \<and> compute_paths windows_host [''source/tools''] False = [''source'' @ [CHR 0x5C] @ ''tools'']
   \<and> ''source/tools'' \<notin> set (compute_paths windows_host [''source/tools''] False)"
  by (simp add: compute_paths_def user_paths_def host_separators_def windows_host_def
      demo_isfile_def str_replace_def)

text \<open>
  Claim C7, amended. With \<^verbatim>\<open>use_default_paths\<close> false every path argument is dealt with
  on its own (the result for a list is the concatenation of the results for its parts).
  An argument that is not an existing file is retained, and so is an existing file whose
  name ends in \<^verbatim>\<open>".py"\<close>; an existing file with no supported suffix is dropped. A
  retained argument is unchanged when the host's separator is \<^verbatim>\<open>"/"\<close>, and has each
  \<^verbatim>\<open>"/"\<close> replaced by the host's separator otherwise.
\<close>

theorem compute_paths_per_argument:
  "compute_paths e (ps @ qs) False = compute_paths e ps False @ compute_paths e qs False
   \<and> (\<not> isfile e f \<longrightarrow> compute_paths e [f] False = host_separators e [f])
   \<and> (isfile e f \<and> endswith f ''.py'' \<longrightarrow> compute_paths e [f] False = host_separators e [f])
   \<and> (isfile e f \<and> \<not> endswith_tuple f extensions \<longrightarrow> compute_paths e [f] False = [])
   \<and> host_separators e [f] =
       [if os_sep e = CHR ''/'' then f else str_replace (CHR ''/'') (os_sep e) f]"
  by (simp add: compute_paths_def user_paths_def host_separators_append host_separators_single
      host_separators_Nil extensions_def)

theorem compute_paths_per_argument_witness:
  "compute_paths windows_host [''source/tools'', ''setup.py'', ''notes.txt''] False
     = [''source'' @ [CHR 0x5C] @ ''tools'', ''setup.py'']
   \<and> compute_paths windows_host [''source/tools''] False = [''source'' @ [CHR 0x5C] @ ''tools'']
   \<and> compute_paths windows_host [''setup.py''] False = [''setup.py'']
   \<and> compute_paths windows_host [''notes.txt''] False = []"
proof -
  have f: "\<not> isfile windows_host ''source/tools''" "isfile windows_host ''setup.py''"
     "isfile windows_host ''notes.txt''" "endswith ''setup.py'' ''.py''"
     "\<not> endswith_tuple ''notes.txt'' extensions" "os_sep windows_host = CHR 0x5C"
    by (simp_all add: windows_host_def demo_isfile_def endswith_def extensions_def)
  have a: "[''source/tools'', ''setup.py'', ''notes.txt'']
            = [''source/tools''] @ [''setup.py''] @ [''notes.txt'']"
    by simp
  show ?thesis
    unfolding a
    using compute_paths_per_argument
            [of windows_host "[''source/tools'']" "[''setup.py''] @ [''notes.txt'']"
                "''source/tools''"]
          compute_paths_per_argument
            [of windows_host "[''setup.py'']" "[''notes.txt'']" "''setup.py''"]
          compute_paths_per_argument [of windows_host "[]" "[]" "''notes.txt''"] f
    by (simp add: str_replace_def)
qed

section \<open>What the steps do to the state\<close>

lemma formatter_calls_print [simp]: "formatter_calls (print m s) = formatter_calls s"
  by (simp add: print_def)

lemma formatter_calls_spawn [simp]: "formatter_calls (spawn c s) = formatter_calls s"
  by (simp add: spawn_def)

lemma subprocess_calls_print [simp]: "subprocess_calls (print m s) = subprocess_calls s"
  by (simp add: print_def)

lemma subprocess_calls_spawn [simp]: "subprocess_calls (spawn c s) = subprocess_calls s @ [c]"
  by (simp add: spawn_def)

lemma stdout_print [simp]: "stdout (print m s) = stdout s @ [m]"
  by (simp add: print_def)

lemma stdout_spawn [simp]: "stdout (spawn c s) = stdout s"
  by (simp add: spawn_def)

lemma initial_state_formatter_calls: "formatter_calls initial_state = []"
  by (simp add: initial_state_def)

text \<open>One round of the loop: either the candidate is skipped, or it is run.\<close>

lemma version_loop_skip:
  "b \<and> \<not> (c \<noteq> [] \<and> path_exists e c) \<Longrightarrow>
   version_loop e c (b # bs) s = version_loop e c bs s"
  by simp

lemma version_loop_try:
  assumes "\<not> (b \<and> \<not> (c \<noteq> [] \<and> path_exists e c))"
  shows "\<exists>fc cmd. version_loop e c (b # bs) s =
      (case check_output e False cmd of
         Inl err \<Rightarrow> if err = FileNotFoundError then version_loop e c bs (spawn cmd s)
                    else (Inl err, spawn cmd s)
       | Inr out \<Rightarrow> (case decode_utf8 out of
            Inl err \<Rightarrow> (Inl err, spawn cmd s)
          | Inr version_output \<Rightarrow>
              (Inr (Some version_output), (spawn cmd s)\<lparr>AUTOPEP8_FORMAT_CMD := fc\<rparr>)))"
proof -
  define fc where "fc = (if b then c else ''autopep8'')"
  define cmd where
    "cmd = (if endswith fc ''.py'' then [sys_executable e, fc] else [fc]) @ [''--version'']"
  have "version_loop e c (b # bs) s =
      (case check_output e False cmd of
         Inl err \<Rightarrow> if err = FileNotFoundError then version_loop e c bs (spawn cmd s)
                    else (Inl err, spawn cmd s)
       | Inr out \<Rightarrow> (case decode_utf8 out of
            Inl err \<Rightarrow> (Inl err, spawn cmd s)
          | Inr version_output \<Rightarrow>
              (Inr (Some version_output), (spawn cmd s)\<lparr>AUTOPEP8_FORMAT_CMD := fc\<rparr>)))"
    using assms unfolding version_loop.simps Let_def fc_def cmd_def by (simp only: if_False)
  then show ?thesis by blast
qed

text \<open>An observation of the state that neither a subprocess call nor the assignment to
  \<^verbatim>\<open>AUTOPEP8_FORMAT_CMD\<close> changes is the same after the loop.\<close>

lemma version_loop_invariant:
  assumes sp: "\<And>cmd s. f (spawn cmd s) = f s"
      and up: "\<And>x s. f (s\<lparr>AUTOPEP8_FORMAT_CMD := x\<rparr>) = f s"
  shows "f (snd (version_loop e c bs s)) = f s"
proof (induction bs arbitrary: s)
  case Nil
  show ?case by simp
next
  case (Cons b bs)
  show ?case
  proof (cases "b \<and> \<not> (c \<noteq> [] \<and> path_exists e c)")
    case True
    then show ?thesis using Cons.IH version_loop_skip by simp
  next
    case False
    from version_loop_try [OF False, of bs s] obtain fc cmd where
      step: "version_loop e c (b # bs) s =
        (case check_output e False cmd of
           Inl err \<Rightarrow> if err = FileNotFoundError then version_loop e c bs (spawn cmd s)
                      else (Inl err, spawn cmd s)
         | Inr out \<Rightarrow> (case decode_utf8 out of
              Inl err \<Rightarrow> (Inl err, spawn cmd s)
            | Inr version_output \<Rightarrow>
                (Inr (Some version_output), (spawn cmd s)\<lparr>AUTOPEP8_FORMAT_CMD := fc\<rparr>)))"
      by blast
    show ?thesis unfolding step
      by (simp add: Cons.IH sp up split: sum.split)
  qed
qed

lemma ensure_version_formatter_calls:
  "formatter_calls (snd (autopep8_ensure_version e c s)) = formatter_calls s"
proof -
  obtain r s1 where l: "version_loop e c [True, False] s = (r, s1)"
    by (cases "version_loop e c [True, False] s")
  have "formatter_calls (snd (version_loop e c [True, False] s)) = formatter_calls s"
    by (rule version_loop_invariant) simp_all
  then have "formatter_calls s1 = formatter_calls s"
    using l by simp
  then show ?thesis
    unfolding autopep8_ensure_version_def l
    by (simp split: sum.split option.split list.split)
qed

lemma ensure_version_pair:
  "fst (autopep8_ensure_version e c s) = r \<Longrightarrow>
   autopep8_ensure_version e c s = (r, snd (autopep8_ensure_version e c s))"
  by (cases "autopep8_ensure_version e c s") simp

lemma print_paths_formatter_calls:
  "formatter_calls (foldl (\<lambda>st p. print (Path_line p) st) s ps) = formatter_calls s"
  by (induction ps arbitrary: s) auto

lemma print_paths_subprocess_calls:
  "subprocess_calls (foldl (\<lambda>st p. print (Path_line p) st) s ps) = subprocess_calls s"
  by (induction ps arbitrary: s) auto

lemma print_paths_stdout:
  "stdout (foldl (\<lambda>st p. print (Path_line p) st) s ps) = stdout s @ map Path_line ps"
  by (induction ps arbitrary: s) auto

lemma before_git_formatter_calls:
  "formatter_calls (before_git e a version s1) = formatter_calls s1"
  by (simp add: before_git_def Let_def print_paths_formatter_calls)

lemma before_git_subprocess_calls:
  "subprocess_calls (before_git e a version s1) = subprocess_calls s1"
  by (simp add: before_git_def Let_def print_paths_subprocess_calls)

lemma before_git_warns:
  "tuple_lt VERSION_MAX_RECOMMENDED version \<Longrightarrow>
   Too_recent version VERSION_MAX_RECOMMENDED \<in> set (stdout (before_git e a version s1))"
  by (simp add: before_git_def Let_def print_paths_stdout)

text \<open>What \<^verbatim>\<open>source_files_from_git\<close> returns does not depend on the state, and all it does
  to the state is to record its command.\<close>

lemma source_files_from_git_result:
  "fst (source_files_from_git e ps c s) = fst (source_files_from_git e ps c s')"
  by (simp add: source_files_from_git_def Let_def split: sum.split)

lemma source_files_from_git_state:
  "snd (source_files_from_git e ps c s) = spawn (git_cmd ps c) s"
  by (simp add: source_files_from_git_def Let_def split: sum.split)

lemma source_files_from_git_eq:
  "fst (source_files_from_git e ps c s') = r \<Longrightarrow>
   source_files_from_git e ps c s = (r, spawn (git_cmd ps c) s)"
  using source_files_from_git_result [of e ps c s s'] source_files_from_git_state [of e ps c s]
  by (cases "source_files_from_git e ps c s") simp

lemma autopep8_format_formatter_calls:
  "formatter_calls (snd (autopep8_format e files s)) = formatter_calls s @ [files]"
  by (simp add: autopep8_format_def Let_def)

lemma autopep8_format_stdout:
  "stdout (snd (autopep8_format e files s)) = stdout s"
  by (simp add: autopep8_format_def Let_def)

text \<open>The command line of the formatter ends with the files \<^verbatim>\<open>autopep8_format\<close> was
  called with.\<close>

lemma autopep8_format_subprocess_calls:
  "subprocess_calls (snd (autopep8_format e files s)) =
     subprocess_calls s @
       [(if endswith (AUTOPEP8_FORMAT_CMD s) ''.py'' then [sys_executable e] else [])
        @ [AUTOPEP8_FORMAT_CMD s, ''--recursive'', ''--in-place'', ''--jobs=0''] @ files]"
  by (simp add: autopep8_format_def Let_def)

lemma tuple_lt_asym: "tuple_lt xs ys \<Longrightarrow> \<not> tuple_lt ys xs"
  by (induction xs ys rule: tuple_lt.induct) (auto split: if_splits)

section \<open>The branches of main\<close>

lemma main_version_error:
  "autopep8_ensure_version e (args_autopep8_command a) s = (Inl err, s1) \<Longrightarrow>
   main e a s = (Uncaught err, s1)"
  by (simp add: main_def)

lemma main_no_version:
  "autopep8_ensure_version e (args_autopep8_command a) s = (Inr None, s1) \<Longrightarrow>
   main e a s = (SysExit 1, print Unable_to_detect s1)"
  by (simp add: main_def)

lemma main_too_old:
  "autopep8_ensure_version e (args_autopep8_command a) s = (Inr (Some version), s1) \<Longrightarrow>
   tuple_lt version VERSION_MIN \<Longrightarrow>
   main e a s = (SysExit 1, print (Too_old version VERSION_MIN) s1)"
  by (simp add: main_def)

lemma main_accepted:
  assumes "autopep8_ensure_version e (args_autopep8_command a) s = (Inr (Some version), s1)"
      and "\<not> tuple_lt version VERSION_MIN"
  shows "main e a s =
     (case source_files_from_git e (resolved_paths e a) (args_changed_only a)
             (before_git e a version s1) of
        (Inl err, s5) \<Rightarrow> (Uncaught err, s5)
      | (Inr fs, s5) \<Rightarrow>
          if filter_files fs = [] then (Returned, s5)
          else (case autopep8_format e (filter_files fs) s5 of
                  (Inl err, s6) \<Rightarrow> (Uncaught err, s6)
                | (Inr out, s6) \<Rightarrow> (Returned, s6)))"
  unfolding main_def assms(1) before_git_def resolved_paths_def Let_def
  using assms(2) by simp

text \<open>With the version accepted, \<^verbatim>\<open>main\<close> is decided by git's answer \<open>g\<close>.\<close>

lemma main_accepted_git:
  assumes v: "autopep8_ensure_version e (args_autopep8_command a) s = (Inr (Some version), s1)"
      and ok: "\<not> tuple_lt version VERSION_MIN"
      and g: "fst (source_files_from_git e (resolved_paths e a) (args_changed_only a) s') = g"
  shows "main e a s =
     (case g of
        Inl err \<Rightarrow>
          (Uncaught err,
           spawn (git_cmd (resolved_paths e a) (args_changed_only a)) (before_git e a version s1))
      | Inr fs \<Rightarrow>
          if filter_files fs = []
          then (Returned,
                spawn (git_cmd (resolved_paths e a) (args_changed_only a))
                  (before_git e a version s1))
          else (case autopep8_format e (filter_files fs)
                       (spawn (git_cmd (resolved_paths e a) (args_changed_only a))
                          (before_git e a version s1)) of
                  (Inl err, s6) \<Rightarrow> (Uncaught err, s6)
                | (Inr out, s6) \<Rightarrow> (Returned, s6)))"
  unfolding main_accepted [OF v ok] source_files_from_git_eq [OF g]
  by (simp split: sum.split)

text \<open>\<^verbatim>\<open>main\<close> calls \<^verbatim>\<open>autopep8_format\<close> at most once, and then with the filtered
  answer of git, which is not empty.\<close>

lemma main_formatter_calls:
  "formatter_calls (snd (main e a s)) = formatter_calls s
   \<or> (\<exists>fs. fst (source_files_from_git e (resolved_paths e a) (args_changed_only a) s) = Inr fs
          \<and> filter_files fs \<noteq> []
          \<and> formatter_calls (snd (main e a s)) = formatter_calls s @ [filter_files fs])"
proof -
  obtain r s1 where v: "autopep8_ensure_version e (args_autopep8_command a) s = (r, s1)"
    by (cases "autopep8_ensure_version e (args_autopep8_command a) s")
  have s1: "formatter_calls s1 = formatter_calls s"
    using ensure_version_formatter_calls [of e "args_autopep8_command a" s] v by simp
  show ?thesis
  proof (cases r)
    case (Inl err)
    then show ?thesis using main_version_error v s1 by simp
  next
    case (Inr vo)
    show ?thesis
    proof (cases vo)
      case None
      then show ?thesis using main_no_version v s1 Inr by simp
    next
      case (Some version)
      note v' = v [unfolded Inr Some]
      show ?thesis
      proof (cases "tuple_lt version VERSION_MIN")
        case True
        then show ?thesis using main_too_old [OF v'] s1 by simp
      next
        case False
        let ?s5 = "spawn (git_cmd (resolved_paths e a) (args_changed_only a))
                     (before_git e a version s1)"
        let ?g = "fst (source_files_from_git e (resolved_paths e a) (args_changed_only a) s)"
        note m = main_accepted_git [OF v' False refl, of s]
        show ?thesis
        proof (cases ?g)
          case (Inl err)
          then show ?thesis using m s1 by (simp add: before_git_formatter_calls)
        next
          case (Inr fs)
          show ?thesis
          proof (cases "filter_files fs = []")
            case True
            then show ?thesis using m s1 Inr by (simp add: before_git_formatter_calls)
          next
            case False
            obtain r6 s6 where f: "autopep8_format e (filter_files fs) ?s5 = (r6, s6)"
              by (cases "autopep8_format e (filter_files fs) ?s5")
            have "formatter_calls s6 = formatter_calls s @ [filter_files fs]"
              using autopep8_format_formatter_calls [of e "filter_files fs" ?s5] f s1
              by (simp add: before_git_formatter_calls)
            moreover have "snd (main e a s) = s6"
              using m Inr False f by (simp split: sum.split)
            ultimately show ?thesis using Inr False by simp
          qed
        qed
      qed
    qed
  qed
qed

section \<open>The version check\<close>

lemma split_ws_no_empty: "[] \<notin> set (split_ws cur s)"
  by (induction s arbitrary: cur) auto

lemma first_digit_token_find:
  "[] \<notin> set ts \<Longrightarrow> first_digit_token ts = Inr (find starts_with_digit ts)"
  by (induction ts) (auto simp: starts_with_digit_def split: list.split)

lemma split_sep_hd:
  "split_sep sep cur s \<noteq> []
   \<and> hd (split_sep sep cur s) = cur @ takeWhile (\<lambda>c. c \<noteq> sep) s"
  by (induction s arbitrary: cur) auto

lemma split_sep_first:
  "\<exists>rest. split_sep sep cur s = (cur @ takeWhile (\<lambda>c. c \<noteq> sep) s) # rest"
  using split_sep_hd [of sep cur s] by (cases "split_sep sep cur s") auto

text \<open>
  Claim C2. \<open>parse_version\<close> does what the claim describes, for every version output:
  it agrees with \<open>parse_version_spec\<close>. On \<^verbatim>\<open>"autopep8 1.6.0 (pycodestyle: 2.9.1)"\<close>
  and on \<^verbatim>\<open>"1.6.0-beta"\<close> the result is the tuple (1, 6, 0), and so is the result of
  \<^verbatim>\<open>autopep8_ensure_version\<close> on a host whose autopep8 prints these.
\<close>

theorem parse_version_as_specified:
  "parse_version version_output = parse_version_spec version_output
   \<and> parse_version ''autopep8 1.6.0 (pycodestyle: 2.9.1)'' = Inr (Some [1, 6, 0])
   \<and> parse_version ''1.6.0-beta'' = Inr (Some [1, 6, 0])
   \<and> fst (autopep8_ensure_version (posix_host ''autopep8 1.6.0 (pycodestyle: 2.9.1)'' [])
            ''autopep8'' initial_state) = Inr (Some [1, 6, 0])
   \<and> fst (autopep8_ensure_version (posix_host ''1.6.0-beta'' [])
            ''autopep8'' initial_state) = Inr (Some [1, 6, 0])"
proof -
  have t: "first_digit_token (str_split version_output)
             = Inr (find starts_with_digit (str_split version_output))"
    by (rule first_digit_token_find) (simp add: str_split_def split_ws_no_empty)
  have "parse_version version_output = parse_version_spec version_output"
  proof (cases "find starts_with_digit (str_split version_output)")
    case None
    then show ?thesis by (simp add: parse_version_def parse_version_spec_def t)
  next
    case (Some tok)
    obtain rest where
      "str_split_on (CHR ''-'') tok = takeWhile (\<lambda>c. c \<noteq> CHR ''-'') tok # rest"
      using split_sep_first [of "CHR ''-''" "[]" tok] by (auto simp: str_split_on_def)
    then show ?thesis by (simp add: parse_version_def parse_version_spec_def t Some)
  qed
  moreover have "parse_version ''autopep8 1.6.0 (pycodestyle: 2.9.1)'' = Inr (Some [1, 6, 0])"
    by (simp add: string_defs program_defs)
  moreover have "parse_version ''1.6.0-beta'' = Inr (Some [1, 6, 0])"
    by (simp add: string_defs program_defs)
  moreover have
    "fst (autopep8_ensure_version (posix_host ''autopep8 1.6.0 (pycodestyle: 2.9.1)'' [])
            ''autopep8'' initial_state) = Inr (Some [1, 6, 0])"
    by (simp add: string_defs program_defs host_defs)
  moreover have
    "fst (autopep8_ensure_version (posix_host ''1.6.0-beta'' [])
            ''autopep8'' initial_state) = Inr (Some [1, 6, 0])"
    by (simp add: string_defs program_defs host_defs)
  ultimately show ?thesis by simp
qed

theorem parse_version_as_specified_witness:
  "parse_version ''autopep8 2.0.4-rc1 (pycodestyle: 2.11.0)'' = Inr (Some [2, 0, 4])
   \<and> parse_version_spec ''autopep8 2.0.4-rc1 (pycodestyle: 2.11.0)'' = Inr (Some [2, 0, 4])"
proof -
  have "parse_version ''autopep8 2.0.4-rc1 (pycodestyle: 2.11.0)'' = Inr (Some [2, 0, 4])"
    by (simp add: string_defs program_defs)
  with parse_version_as_specified [of "''autopep8 2.0.4-rc1 (pycodestyle: 2.11.0)''"]
  show ?thesis by simp
qed

text \<open>
  Claim C3 says that a run in which no candidate yields a version ends with a message and
  a non-zero \<^verbatim>\<open>sys.exit\<close>, also when no command could be executed. On a host without
  autopep8 every round of the loop ends in \<^verbatim>\<open>continue\<close>, \<^verbatim>\<open>version_output\<close> is still
  \<^verbatim>\<open>None\<close>, and \<^verbatim>\<open>version_output.split()\<close> raises: the run ends with an uncaught
  \<^verbatim>\<open>AttributeError\<close> and has printed nothing, the message of \<^verbatim>\<open>main\<close> is never
  reached. A version output with a token that starts with a digit but is no dotted number
  ends in an uncaught \<^verbatim>\<open>ValueError\<close> in the same way. Only an output without any
  token that starts with a digit reaches the message and \<^verbatim>\<open>sys.exit(1)\<close>.
\<close>

theorem missing_autopep8_is_uncaught:
  "run no_autopep8_host default_args =
     (Uncaught AttributeError,
      \<lparr>AUTOPEP8_FORMAT_CMD = ''autopep8'', stdout = [],
       subprocess_calls = [[''autopep8'', ''--version'']], formatter_calls = []\<rparr>)
   \<and> run (posix_host ''autopep8 1.6.0rc1'' []) default_args =
     (Uncaught ValueError,
      \<lparr>AUTOPEP8_FORMAT_CMD = ''autopep8'', stdout = [],
       subprocess_calls = [[''autopep8'', ''--version'']], formatter_calls = []\<rparr>)
   \<and> run (posix_host ''autopep8 (version unknown)'' []) default_args =
     (SysExit 1,
      \<lparr>AUTOPEP8_FORMAT_CMD = ''autopep8'', stdout = [Unable_to_detect],
       subprocess_calls = [[''autopep8'', ''--version'']], formatter_calls = []\<rparr>)"
  by (simp add: run_def main_def string_defs program_defs host_defs)

text \<open>
  Claim C1. When \<^verbatim>\<open>autopep8_ensure_version\<close> returns a version tuple below
  \<^verbatim>\<open>VERSION_MIN\<close>, the run ends in \<^verbatim>\<open>sys.exit(1)\<close>, so with exit code 1, after
  printing that the version is too old. \<^verbatim>\<open>autopep8_format\<close> is never called, and no
  subprocess is started after the version query.
\<close>

theorem below_minimum_exits_1:
  assumes "fst (autopep8_ensure_version e (args_autopep8_command a) initial_state)
             = Inr (Some version)"
      and "tuple_lt version VERSION_MIN"
  shows "fst (run e a) = SysExit 1
       \<and> exit_code (fst (run e a)) = 1
       \<and> formatter_calls (snd (run e a)) = []
       \<and> subprocess_calls (snd (run e a))
           = subprocess_calls (snd (autopep8_ensure_version e (args_autopep8_command a)
                                      initial_state))
       \<and> last (stdout (snd (run e a))) = Too_old version VERSION_MIN"
proof -
  let ?s1 = "snd (autopep8_ensure_version e (args_autopep8_command a) initial_state)"
  have m: "run e a = (SysExit 1, print (Too_old version VERSION_MIN) ?s1)"
    unfolding run_def
    by (rule main_too_old [OF ensure_version_pair [OF assms(1)] assms(2)])
  have "formatter_calls ?s1 = []"
    by (simp add: ensure_version_formatter_calls initial_state_formatter_calls)
  then show ?thesis
    by (simp add: m)
qed

theorem below_minimum_exits_1_witness:
  "fst (autopep8_ensure_version (posix_host ''autopep8 1.5.9'' demo_git_output)
          (args_autopep8_command default_args) initial_state) = Inr (Some [1, 5, 9])
   \<and> tuple_lt [1, 5, 9] VERSION_MIN
   \<and> fst (run (posix_host ''autopep8 1.5.9'' demo_git_output) default_args) = SysExit 1
   \<and> exit_code (fst (run (posix_host ''autopep8 1.5.9'' demo_git_output) default_args)) = 1
   \<and> formatter_calls (snd (run (posix_host ''autopep8 1.5.9'' demo_git_output) default_args))
       = []
   \<and> subprocess_calls (snd (run (posix_host ''autopep8 1.5.9'' demo_git_output) default_args))
       = [[''autopep8'', ''--version'']]"
proof -
  have v: "fst (autopep8_ensure_version (posix_host ''autopep8 1.5.9'' demo_git_output)
          (args_autopep8_command default_args) initial_state) = Inr (Some [1, 5, 9])"
    by (simp add: string_defs program_defs host_defs)
  have lt: "tuple_lt [1, 5, 9] VERSION_MIN"
    by (simp add: VERSION_MIN_def)
  have c: "subprocess_calls (snd (autopep8_ensure_version
             (posix_host ''autopep8 1.5.9'' demo_git_output)
             (args_autopep8_command default_args) initial_state)) = [[''autopep8'', ''--version'']]"
    by (simp add: string_defs program_defs host_defs)
  from below_minimum_exits_1 [OF v lt] v lt c show ?thesis by simp
qed

lemma format_cmd_print [simp]: "AUTOPEP8_FORMAT_CMD (print m s) = AUTOPEP8_FORMAT_CMD s"
  by (simp add: print_def)

lemma format_cmd_spawn [simp]: "AUTOPEP8_FORMAT_CMD (spawn c s) = AUTOPEP8_FORMAT_CMD s"
  by (simp add: spawn_def)

lemma print_paths_format_cmd:
  "AUTOPEP8_FORMAT_CMD (foldl (\<lambda>st p. print (Path_line p) st) s ps) = AUTOPEP8_FORMAT_CMD s"
  by (induction ps arbitrary: s) auto

lemma before_git_format_cmd:
  "AUTOPEP8_FORMAT_CMD (before_git e a version s1) = AUTOPEP8_FORMAT_CMD s1"
  by (simp add: before_git_def Let_def print_paths_format_cmd)

text \<open>
  Claim C8, as stated: for every detected version above the recommended maximum the
  warning is printed and the formatter is still invoked. With autopep8 1.7.0 and an
  answer of git in which nothing is left to format, the warning is printed and the run
  returns, but \<^verbatim>\<open>autopep8_format\<close> is not called: the only subprocesses are the version
  query and the git query.
\<close>

theorem above_recommended_nothing_to_format:
  "fst (autopep8_ensure_version (posix_host ''autopep8 1.7.0'' demo_git_output_no_python)
          (args_autopep8_command default_args) initial_state) = Inr (Some [1, 7, 0])
   \<and> tuple_lt VERSION_MAX_RECOMMENDED [1, 7, 0]
   \<and> run (posix_host ''autopep8 1.7.0'' demo_git_output_no_python) default_args =
       (Returned,
        \<lparr>AUTOPEP8_FORMAT_CMD = ''autopep8'',
         stdout = [Using ''autopep8'' 1 7 0, Too_recent [1, 7, 0] [1, 6, 0], Install_hint 1 6,
                   Operating_on None, Path_line ''build_files'', Path_line ''release'',
                   Path_line ''doc'', Path_line ''source'', Path_line ''tests''],
         subprocess_calls =
           [[''autopep8'', ''--version''],
            [''git'', ''ls-tree'', ''-r'', ''HEAD'', ''build_files'', ''release'', ''doc'',
             ''source'', ''tests'', ''--name-only'', ''-z'']],
         formatter_calls = []\<rparr>)"
  by (simp add: run_def main_def string_defs program_defs host_defs)

text \<open>
  Claim C8, amended. When \<^verbatim>\<open>autopep8_ensure_version\<close> returns a version tuple above
  \<^verbatim>\<open>VERSION_MAX_RECOMMENDED\<close>, the run prints the warning and goes on: it does not end
  in \<^verbatim>\<open>sys.exit\<close>, and after the version query it asks git for the files. The formatter
  is started exactly when git answers and the filtered answer is not empty: then
  \<^verbatim>\<open>autopep8_format\<close> is called once with the filtered answer, and the formatter's command
  line (the command with \<^verbatim>\<open>--recursive --in-place --jobs=0\<close> and the files, after
  \<^verbatim>\<open>sys.executable\<close> when the command ends in \<^verbatim>\<open>".py"\<close>) is the one subprocess after
  the git query. Otherwise the git query is the last subprocess.
\<close>

theorem above_recommended_warns_and_continues:
  assumes "fst (autopep8_ensure_version e (args_autopep8_command a) initial_state)
             = Inr (Some version)"
      and "tuple_lt VERSION_MAX_RECOMMENDED version"
  shows "Too_recent version VERSION_MAX_RECOMMENDED \<in> set (stdout (snd (run e a)))
       \<and> (\<forall>n. fst (run e a) \<noteq> SysExit n)
       \<and> git_cmd (resolved_paths e a) (args_changed_only a)
           \<in> set (subprocess_calls (snd (run e a)))
       \<and> formatter_calls (snd (run e a))
           = (case fst (source_files_from_git e (resolved_paths e a) (args_changed_only a)
                          initial_state) of
                Inl err \<Rightarrow> []
              | Inr fs \<Rightarrow> if filter_files fs = [] then [] else [filter_files fs])
       \<and> subprocess_calls (snd (run e a))
           = subprocess_calls
               (snd (autopep8_ensure_version e (args_autopep8_command a) initial_state))
             @ [git_cmd (resolved_paths e a) (args_changed_only a)]
             @ (case fst (source_files_from_git e (resolved_paths e a) (args_changed_only a)
                            initial_state) of
                  Inl err \<Rightarrow> []
                | Inr fs \<Rightarrow>
                    if filter_files fs = [] then []
                    else [(if endswith
                                (AUTOPEP8_FORMAT_CMD
                                   (snd (autopep8_ensure_version e (args_autopep8_command a)
                                           initial_state))) ''.py''
                           then [sys_executable e] else [])
                          @ [AUTOPEP8_FORMAT_CMD
                               (snd (autopep8_ensure_version e (args_autopep8_command a)
                                       initial_state)),
                             ''--recursive'', ''--in-place'', ''--jobs=0'']
                          @ filter_files fs])"
proof -
  let ?s1 = "snd (autopep8_ensure_version e (args_autopep8_command a) initial_state)"
  let ?s4 = "before_git e a version ?s1"
  let ?git = "git_cmd (resolved_paths e a) (args_changed_only a)"
  let ?g = "fst (source_files_from_git e (resolved_paths e a) (args_changed_only a)
                   initial_state)"
  have ok: "\<not> tuple_lt version VERSION_MIN"
    using tuple_lt_asym [OF assms(2)] by (simp add: VERSION_MIN_def VERSION_MAX_RECOMMENDED_def)
  have w: "Too_recent version VERSION_MAX_RECOMMENDED \<in> set (stdout ?s4)"
    by (rule before_git_warns [OF assms(2)])
  have f0: "formatter_calls ?s4 = []"
    by (simp add: before_git_formatter_calls ensure_version_formatter_calls
        initial_state_formatter_calls)
  have c0: "subprocess_calls ?s4 = subprocess_calls ?s1"
    by (rule before_git_subprocess_calls)
  have n0: "AUTOPEP8_FORMAT_CMD ?s4 = AUTOPEP8_FORMAT_CMD ?s1"
    by (rule before_git_format_cmd)
  note m = main_accepted_git [OF ensure_version_pair [OF assms(1)] ok refl, of initial_state,
      folded run_def]
  show ?thesis
  proof (cases ?g)
    case (Inl err)
    then show ?thesis using m w f0 c0 by simp
  next
    case (Inr fs)
    show ?thesis
    proof (cases "filter_files fs = []")
      case True
      then show ?thesis using m w f0 c0 Inr by simp
    next
      case False
      obtain r6 s6 where f: "autopep8_format e (filter_files fs) (spawn ?git ?s4) = (r6, s6)"
        by (cases "autopep8_format e (filter_files fs) (spawn ?git ?s4)")
      have s6: "formatter_calls s6 = [filter_files fs]" "stdout s6 = stdout ?s4"
         "subprocess_calls s6 =
            subprocess_calls ?s1 @ [?git]
            @ [(if endswith (AUTOPEP8_FORMAT_CMD ?s1) ''.py'' then [sys_executable e] else [])
               @ [AUTOPEP8_FORMAT_CMD ?s1, ''--recursive'', ''--in-place'', ''--jobs=0'']
               @ filter_files fs]"
        using autopep8_format_formatter_calls [of e "filter_files fs" "spawn ?git ?s4"]
          autopep8_format_stdout [of e "filter_files fs" "spawn ?git ?s4"]
          autopep8_format_subprocess_calls [of e "filter_files fs" "spawn ?git ?s4"] f f0 c0 n0
        by simp_all
      have r: "run e a = (case r6 of Inl err \<Rightarrow> Uncaught err | Inr out \<Rightarrow> Returned, s6)"
        using m Inr False f by (simp split: sum.split)
      have o: "\<forall>n. fst (run e a) \<noteq> SysExit n"
        using r by (simp split: sum.split)
      have "snd (run e a) = s6"
        using r by simp
      then show ?thesis using s6 w o Inr False by simp
    qed
  qed
qed

theorem above_recommended_warns_and_continues_witness:
  "fst (autopep8_ensure_version (posix_host ''autopep8 1.7.0'' demo_git_output)
          (args_autopep8_command default_args) initial_state) = Inr (Some [1, 7, 0])
   \<and> tuple_lt VERSION_MAX_RECOMMENDED [1, 7, 0]
   \<and> filter_files [''release/scripts/modules/rna_manual_reference.py'',
                    ''source/tools/a.py'', ''source/tools/b.c'', []] = [''source/tools/a.py'']
   \<and> Too_recent [1, 7, 0] VERSION_MAX_RECOMMENDED
       \<in> set (stdout (snd (run (posix_host ''autopep8 1.7.0'' demo_git_output) default_args)))
   \<and> fst (run (posix_host ''autopep8 1.7.0'' demo_git_output) default_args) \<noteq> SysExit 1
   \<and> formatter_calls (snd (run (posix_host ''autopep8 1.7.0'' demo_git_output) default_args))
       = [[''source/tools/a.py'']]
   \<and> subprocess_calls (snd (run (posix_host ''autopep8 1.7.0'' demo_git_output) default_args))
       = [[''autopep8'', ''--version''],
          [''git'', ''ls-tree'', ''-r'', ''HEAD'', ''build_files'', ''release'', ''doc'',
           ''source'', ''tests'', ''--name-only'', ''-z''],
          [''autopep8'', ''--recursive'', ''--in-place'', ''--jobs=0'', ''source/tools/a.py'']]"
proof -
  let ?h = "posix_host ''autopep8 1.7.0'' demo_git_output"
  have v: "fst (autopep8_ensure_version ?h (args_autopep8_command default_args) initial_state)
             = Inr (Some [1, 7, 0])"
    by (simp add: string_defs program_defs host_defs)
  have s: "snd (autopep8_ensure_version ?h (args_autopep8_command default_args) initial_state)
             = \<lparr>AUTOPEP8_FORMAT_CMD = ''autopep8'', stdout = [Using ''autopep8'' 1 7 0],
                subprocess_calls = [[''autopep8'', ''--version'']], formatter_calls = []\<rparr>"
    by (simp add: string_defs program_defs host_defs)
  have gt: "tuple_lt VERSION_MAX_RECOMMENDED [1, 7, 0]"
    by (simp add: VERSION_MAX_RECOMMENDED_def)
  have p: "git_cmd (resolved_paths ?h default_args) (args_changed_only default_args)
             = [''git'', ''ls-tree'', ''-r'', ''HEAD'', ''build_files'', ''release'', ''doc'',
                ''source'', ''tests'', ''--name-only'', ''-z'']"
    by (simp add: string_defs program_defs host_defs)
  have g: "fst (source_files_from_git ?h (resolved_paths ?h default_args)
                  (args_changed_only default_args) initial_state)
             = Inr [''release/scripts/modules/rna_manual_reference.py'',
                    ''source/tools/a.py'', ''source/tools/b.c'', []]"
    by (simp add: string_defs program_defs host_defs)
  have f: "filter_files [''release/scripts/modules/rna_manual_reference.py'',
                    ''source/tools/a.py'', ''source/tools/b.c'', []] = [''source/tools/a.py'']"
    by (simp add: string_defs program_defs)
  have n: "\<not> endswith ''autopep8'' ''.py''"
    by (simp add: endswith_def)
  from above_recommended_warns_and_continues [OF v gt, unfolded s p g] v gt f n
  show ?thesis by simp
qed

section \<open>The file list\<close>

lemma filter_files_member:
  "f \<in> set (filter_files fs) \<Longrightarrow> f \<in> set fs \<and> endswith f ''.py'' \<and> f \<notin> ignore_files"
  by (simp add: filter_files_def extensions_def)

lemma endswith_Nil: "\<not> endswith [] ''.py''"
  by (simp add: endswith_def)

lemma split_sep_terminated:
  "last (split_sep sep cur (s @ [sep])) = [] \<and> split_sep sep cur (s @ [sep]) \<noteq> []"
  by (induction s arbitrary: cur) auto

lemma str_split_on_terminated: "[] \<in> set (str_split_on sep (s @ [sep]))"
  using split_sep_terminated [of sep "[]" s] last_in_set [of "split_sep sep [] (s @ [sep])"]
  by (simp add: str_split_on_def)

text \<open>
  Claim C4. When the version is accepted, git answers and nothing of its answer is left
  after filtering, the run returns from \<^verbatim>\<open>main\<close>, so with exit code 0;
  \<^verbatim>\<open>autopep8_format\<close> is never called, and the git query is the last subprocess started.
\<close>

theorem empty_file_list_exits_0:
  assumes "fst (autopep8_ensure_version e (args_autopep8_command a) initial_state)
             = Inr (Some version)"
      and "\<not> tuple_lt version VERSION_MIN"
      and "fst (source_files_from_git e (resolved_paths e a) (args_changed_only a)
                  initial_state) = Inr fs"
      and "filter_files fs = []"
  shows "fst (run e a) = Returned
       \<and> exit_code (fst (run e a)) = 0
       \<and> formatter_calls (snd (run e a)) = []
       \<and> last (subprocess_calls (snd (run e a)))
           = git_cmd (resolved_paths e a) (args_changed_only a)"
proof -
  let ?s1 = "snd (autopep8_ensure_version e (args_autopep8_command a) initial_state)"
  let ?s4 = "before_git e a version ?s1"
  let ?git = "git_cmd (resolved_paths e a) (args_changed_only a)"
  have m: "run e a = (Returned, spawn ?git ?s4)"
    using main_accepted_git [OF ensure_version_pair [OF assms(1)] assms(2) assms(3)] assms(4)
    by (simp add: run_def)
  have "formatter_calls ?s4 = []"
    by (simp add: before_git_formatter_calls ensure_version_formatter_calls
        initial_state_formatter_calls)
  then show ?thesis
    by (simp add: m)
qed

theorem empty_file_list_exits_0_witness:
  "fst (autopep8_ensure_version (posix_host ''autopep8 1.6.0'' demo_git_output_no_python)
          (args_autopep8_command default_args) initial_state) = Inr (Some [1, 6, 0])
   \<and> \<not> tuple_lt [1, 6, 0] VERSION_MIN
   \<and> fst (source_files_from_git (posix_host ''autopep8 1.6.0'' demo_git_output_no_python)
            (resolved_paths (posix_host ''autopep8 1.6.0'' demo_git_output_no_python)
               default_args)
            (args_changed_only default_args) initial_state)
       = Inr [''release/scripts/modules/rna_manual_reference.py'', ''source/tools/b.c'', []]
   \<and> filter_files [''release/scripts/modules/rna_manual_reference.py'', ''source/tools/b.c'', []]
       = []
   \<and> fst (run (posix_host ''autopep8 1.6.0'' demo_git_output_no_python) default_args) = Returned
   \<and> exit_code (fst (run (posix_host ''autopep8 1.6.0'' demo_git_output_no_python)
                        default_args)) = 0
   \<and> formatter_calls (snd (run (posix_host ''autopep8 1.6.0'' demo_git_output_no_python)
                              default_args)) = []"
proof -
  let ?h = "posix_host ''autopep8 1.6.0'' demo_git_output_no_python"
  have v: "fst (autopep8_ensure_version ?h (args_autopep8_command default_args) initial_state)
             = Inr (Some [1, 6, 0])"
    by (simp add: string_defs program_defs host_defs)
  have ok: "\<not> tuple_lt [1, 6, 0] VERSION_MIN"
    by (simp add: VERSION_MIN_def)
  have g: "fst (source_files_from_git ?h (resolved_paths ?h default_args)
                  (args_changed_only default_args) initial_state)
             = Inr [''release/scripts/modules/rna_manual_reference.py'', ''source/tools/b.c'', []]"
    by (simp add: string_defs program_defs host_defs)
  have f: "filter_files
             [''release/scripts/modules/rna_manual_reference.py'', ''source/tools/b.c'', []] = []"
    by (simp add: string_defs program_defs)
  from empty_file_list_exits_0 [OF v ok g f] v ok g f show ?thesis by simp
qed

text \<open>
  Claim C5. Whatever the host and the arguments, no list of files that
  \<^verbatim>\<open>autopep8_format\<close> is called with in a run holds the path
  \<^verbatim>\<open>release/scripts/modules/rna_manual_reference.py\<close> of \<^verbatim>\<open>ignore_files\<close>, also when
  git's answer holds it.
\<close>

theorem ignored_file_never_formatted:
  "\<forall>files \<in> set (formatter_calls (snd (run e a))).
     ''release/scripts/modules/rna_manual_reference.py'' \<notin> set files"
proof -
  have "''release/scripts/modules/rna_manual_reference.py'' \<notin> set (filter_files fs)" for fs
    using filter_files_member [of "''release/scripts/modules/rna_manual_reference.py''" fs]
    by (auto simp: ignore_files_def)
  then show ?thesis
    using main_formatter_calls [of e a initial_state]
    by (auto simp: run_def initial_state_formatter_calls)
qed

theorem ignored_file_never_formatted_witness:
  "fst (source_files_from_git (posix_host ''autopep8 1.6.0'' demo_git_output)
          (resolved_paths (posix_host ''autopep8 1.6.0'' demo_git_output) default_args)
          (args_changed_only default_args) initial_state)
     = Inr [''release/scripts/modules/rna_manual_reference.py'',
            ''source/tools/a.py'', ''source/tools/b.c'', []]
   \<and> formatter_calls (snd (run (posix_host ''autopep8 1.6.0'' demo_git_output) default_args))
       = [[''source/tools/a.py'']]
   \<and> ''release/scripts/modules/rna_manual_reference.py'' \<notin> set [''source/tools/a.py'']"
proof -
  let ?h = "posix_host ''autopep8 1.6.0'' demo_git_output"
  have g: "fst (source_files_from_git ?h (resolved_paths ?h default_args)
                  (args_changed_only default_args) initial_state)
             = Inr [''release/scripts/modules/rna_manual_reference.py'',
                    ''source/tools/a.py'', ''source/tools/b.c'', []]"
    by (simp add: string_defs program_defs host_defs)
  have r: "formatter_calls (snd (run ?h default_args)) = [[''source/tools/a.py'']]"
    by (simp add: run_def main_def string_defs program_defs host_defs)
  from ignored_file_never_formatted [of ?h default_args] g r show ?thesis by simp
qed

text \<open>
  Claim C9. Every string of every list of files that \<^verbatim>\<open>autopep8_format\<close> is called with
  in a run ends with \<^verbatim>\<open>".py"\<close>, and the empty string is none of them. Splitting bytes
  that end with a NUL byte at the NUL bytes does give an empty string, so git's answer as
  \<^verbatim>\<open>source_files_from_git\<close> returns it holds one.
\<close>

theorem formatted_files_end_with_py:
  "(\<forall>files \<in> set (formatter_calls (snd (run e a))).
      (\<forall>f \<in> set files. endswith f ''.py'') \<and> [] \<notin> set files)
   \<and> [] \<in> set (str_split_on (CHR 0x00) (out @ [CHR 0x00]))"
proof -
  have "(\<forall>f \<in> set (filter_files fs). endswith f ''.py'') \<and> [] \<notin> set (filter_files fs)" for fs
    using filter_files_member [of _ fs] endswith_Nil by blast
  then have "\<forall>files \<in> set (formatter_calls (snd (run e a))).
      (\<forall>f \<in> set files. endswith f ''.py'') \<and> [] \<notin> set files"
    using main_formatter_calls [of e a initial_state]
    by (auto simp: run_def initial_state_formatter_calls)
  then show ?thesis
    using str_split_on_terminated by blast
qed

theorem formatted_files_end_with_py_witness:
  "resolved_paths (posix_host ''autopep8 1.6.0'' demo_git_output) path_args
     = [''source/tools'', ''setup.py'']
   \<and> fst (source_files_from_git (posix_host ''autopep8 1.6.0'' demo_git_output)
          [''source/tools'', ''setup.py''] False initial_state)
     = Inr [''release/scripts/modules/rna_manual_reference.py'',
            ''source/tools/a.py'', ''source/tools/b.c'', []]
   \<and> formatter_calls (snd (run (posix_host ''autopep8 1.6.0'' demo_git_output) path_args))
       = [[''source/tools/a.py'']]
   \<and> endswith ''source/tools/a.py'' ''.py''
   \<and> [] \<notin> set [''source/tools/a.py'']"
proof -
  let ?h = "posix_host ''autopep8 1.6.0'' demo_git_output"
  have p: "resolved_paths ?h path_args = [''source/tools'', ''setup.py'']"
    by (simp add: string_defs program_defs host_defs)
  have g: "fst (source_files_from_git ?h [''source/tools'', ''setup.py''] False initial_state)
             = Inr [''release/scripts/modules/rna_manual_reference.py'',
                    ''source/tools/a.py'', ''source/tools/b.c'', []]"
    by (simp add: string_defs program_defs host_defs)
  have r: "formatter_calls (snd (run ?h path_args)) = [[''source/tools/a.py'']]"
    by (simp add: run_def main_def string_defs program_defs host_defs)
  from formatted_files_end_with_py [of ?h path_args "[]"] p g r show ?thesis by simp
qed

end
